theory Spec2Isabelle
  imports Main
begin

section \<open>The PostgreSQL extension resource\<close>

text \<open>
  A shallow embedding of \<^verbatim>\<open>postgresql/resource_postgresql_extension.go\<close>: the five
  lifecycle operations of the \<^verbatim>\<open>postgresql_extension\<close> resource and the two helpers
  \<^verbatim>\<open>setExtSchema\<close> and \<^verbatim>\<open>setExtVersion\<close>. Go strings are byte strings, modelled as
  \<^typ>\<open>string\<close>. Every effect of the code on its surroundings (the catalog lock, the
  statements sent to the database) is recorded, in order, in a trace.
\<close>

subsection \<open>Errors\<close>

text \<open>
  The error values the file produces or passes on.
  \<^item> \<open>ErrNoRows\<close> is \<^verbatim>\<open>sql.ErrNoRows\<close>;
  \<^item> \<open>DriverError\<close> is any other error coming out of \<^verbatim>\<open>database/sql\<close>;
  \<^item> \<open>UnsupportedFeature v\<close> is \<^verbatim>\<open>fmt.Errorf("postgresql_extension resource is not
    supported for this Postgres version (%s)", v)\<close>;
  \<^item> \<open>ValidationError m\<close> is \<^verbatim>\<open>errors.New(m)\<close>;
  \<^item> \<open>Wrapf f e\<close> is \<^verbatim>\<open>errwrap.Wrapf(f, e)\<close>.
\<close>

datatype error =
    ErrNoRows
  | DriverError string
  | UnsupportedFeature string
  | ValidationError string
  | Wrapf string error

subsection \<open>The resource data\<close>

text \<open>
  \<^verbatim>\<open>schema.ResourceData\<close> belongs to the Terraform helper library; the file uses its
  methods \<^verbatim>\<open>Id\<close>, \<^verbatim>\<open>SetId\<close>, \<^verbatim>\<open>Get\<close>, \<^verbatim>\<open>GetOk\<close>, \<^verbatim>\<open>GetChange\<close>, \<^verbatim>\<open>HasChange\<close> and \<^verbatim>\<open>Set\<close>.
  They are modelled by their documented contract over three attribute maps: the
  last-known state (the previous descriptor), the planned values (state merged with
  configuration and diff: the desired descriptor) and the values written by \<^verbatim>\<open>Set\<close>.
  All three attributes of the resource have type \<^verbatim>\<open>TypeString\<close>, whose zero value is
  the empty string.
\<close>

record ResourceData =
  rd_id :: string
  rd_state :: "string \<rightharpoonup> string"
  rd_planned :: "string \<rightharpoonup> string"
  rd_written :: "string \<rightharpoonup> string"

definition extNameAttr :: string where
  "extNameAttr = ''name''"

definition extSchemaAttr :: string where
  "extSchemaAttr = ''schema''"

definition extVersionAttr :: string where
  "extVersionAttr = ''version''"

definition d_Id :: "ResourceData \<Rightarrow> string" where
  "d_Id d = rd_id d"

definition d_SetId :: "string \<Rightarrow> ResourceData \<Rightarrow> ResourceData" where
  "d_SetId v d = d\<lparr>rd_id := v\<rparr>"

definition zero_or :: "string option \<Rightarrow> string" where
  "zero_or v = (case v of None \<Rightarrow> [] | Some s \<Rightarrow> s)"

definition merged :: "ResourceData \<Rightarrow> string \<Rightarrow> string option" where
  "merged d k = (case rd_written d k of Some v \<Rightarrow> Some v | None \<Rightarrow> rd_planned d k)"

definition d_Get :: "ResourceData \<Rightarrow> string \<Rightarrow> string" where
  "d_Get d k = zero_or (merged d k)"

text \<open>
  \<^verbatim>\<open>GetOk\<close> returns the value and whether the key has been set to a non-zero value.
\<close>

definition d_GetOk :: "ResourceData \<Rightarrow> string \<Rightarrow> string \<times> bool" where
  "d_GetOk d k =
     (case merged d k of
        None \<Rightarrow> ([], False)
      | Some v \<Rightarrow> (v, v \<noteq> []))"

text \<open>
  \<^verbatim>\<open>GetChange\<close> returns the old value (from the state) and the new value (from the plan);
  \<^verbatim>\<open>HasChange\<close> says whether the two differ. Neither sees what \<^verbatim>\<open>Set\<close> wrote.
\<close>

definition d_GetChange :: "ResourceData \<Rightarrow> string \<Rightarrow> string \<times> string" where
  "d_GetChange d k = (zero_or (rd_state d k), zero_or (rd_planned d k))"

definition d_HasChange :: "ResourceData \<Rightarrow> string \<Rightarrow> bool" where
  "d_HasChange d k = (case d_GetChange d k of (ov, nv) \<Rightarrow> ov \<noteq> nv)"

definition d_Set :: "string \<Rightarrow> string \<Rightarrow> ResourceData \<Rightarrow> ResourceData" where
  "d_Set k v d = d\<lparr>rd_written := (rd_written d)(k \<mapsto> v)\<rparr>"

subsection \<open>Identifier quoting\<close>

text \<open>
  \<^verbatim>\<open>pq.QuoteIdentifier\<close> belongs to the driver library \<^verbatim>\<open>lib/pq\<close>. It cuts the name at its
  first zero byte, doubles every double quote (\<^verbatim>\<open>strings.Replace(name, `"`, `""`, -1)\<close>)
  and puts the result between double quotes.
\<close>

fun Replace_quotes :: "string \<Rightarrow> string" where
  "Replace_quotes [] = []"
| "Replace_quotes (c # cs) =
     (if c = CHR 0x22 then CHR 0x22 # CHR 0x22 # Replace_quotes cs
      else c # Replace_quotes cs)"

definition cut_at_zero :: "string \<Rightarrow> string" where
  "cut_at_zero name = takeWhile (\<lambda>c. c \<noteq> CHR 0x00) name"

definition QuoteIdentifier :: "string \<Rightarrow> string" where
  "QuoteIdentifier name = CHR 0x22 # Replace_quotes (cut_at_zero name) @ [CHR 0x22]"

subsection \<open>The database handle, the catalog lock and the trace\<close>

text \<open>
  What the operations do to their surroundings, in the order they do it.
\<close>

datatype event =
    EvLock
  | EvUnlock
  | EvRLock
  | EvRUnlock
  | EvExec string
  | EvQueryRow string "string list"

fun is_sql :: "event \<Rightarrow> bool" where
  "is_sql (EvExec q) = True"
| "is_sql (EvQueryRow q args) = True"
| "is_sql e = False"

text \<open>
  The database behind \<^verbatim>\<open>*sql.DB\<close> is a parameter: any state type \<open>'db\<close> with any
  behaviour of \<^verbatim>\<open>Exec\<close> (an error or none) and of \<^verbatim>\<open>QueryRow\<close> (an error, \<open>ErrNoRows\<close>
  when no row matches, or the columns of the first row).
\<close>

record 'db sqlDB =
  db_exec :: "string \<Rightarrow> 'db \<Rightarrow> error option \<times> 'db"
  db_query_row :: "string \<Rightarrow> string list \<Rightarrow> 'db \<Rightarrow> (error + string list) \<times> 'db"

record 'db world =
  database :: 'db
  trace :: "event list"

definition emit :: "event \<Rightarrow> 'db world \<Rightarrow> 'db world" where
  "emit e w = w\<lparr>trace := trace w @ [e]\<rparr>"

definition Exec :: "'db sqlDB \<Rightarrow> string \<Rightarrow> 'db world \<Rightarrow> error option \<times> 'db world" where
  "Exec h q w =
     (case db_exec h q (database w) of
        (r, s) \<Rightarrow> (r, emit (EvExec q) (w\<lparr>database := s\<rparr>)))"

definition QueryRow ::
  "'db sqlDB \<Rightarrow> string \<Rightarrow> string list \<Rightarrow> 'db world \<Rightarrow> (error + string list) \<times> 'db world" where
  "QueryRow h q args w =
     (case db_query_row h q args (database w) of
        (r, s) \<Rightarrow> (r, emit (EvQueryRow q args) (w\<lparr>database := s\<rparr>)))"

text \<open>
  \<^verbatim>\<open>Row.Scan\<close> returns the row's error if there is one, and an error of its own when
  the number of destinations is not the number of columns.
\<close>

definition scan_mismatch :: error where
  "scan_mismatch = DriverError ''sql: wrong number of destination arguments in Scan''"

fun Scan1 :: "error + string list \<Rightarrow> error + string" where
  "Scan1 (Inl e) = Inl e"
| "Scan1 (Inr [a]) = Inr a"
| "Scan1 (Inr cols) = Inl scan_mismatch"

fun Scan3 :: "error + string list \<Rightarrow> error + string \<times> string \<times> string" where
  "Scan3 (Inl e) = Inl e"
| "Scan3 (Inr [a, b, c]) = Inr (a, b, c)"
| "Scan3 (Inr cols) = Inl scan_mismatch"

subsection \<open>The client\<close>

text \<open>
  Modelled from the spec: the \<^verbatim>\<open>Client\<close> type and its capability detection
  \<^verbatim>\<open>featureSupported\<close> are declared elsewhere in the package. The client is taken as
  given: its detected server version, the capability set as a predicate on feature
  names, and the database handle returned by \<^verbatim>\<open>c.DB()\<close>.
\<close>

datatype featureName = featureExtension | featureOther string

record 'db Client =
  version :: string
  featureSupported :: "featureName \<Rightarrow> bool"
  DB :: "'db sqlDB"

definition unsupported :: "'db Client \<Rightarrow> error" where
  "unsupported c = UnsupportedFeature (version c)"

subsection \<open>The statements\<close>

definition existsQuery :: string where
  "existsQuery = ''SELECT extname FROM pg_catalog.pg_extension WHERE extname = $1''"

definition readQuery :: string where
  "readQuery =
     ''SELECT e.extname, n.nspname, e.extversion '' @
     ''FROM pg_catalog.pg_extension e, pg_catalog.pg_namespace n '' @
     ''WHERE n.oid = e.extnamespace AND e.extname = $1''"

text \<open>The buffer built by \<^verbatim>\<open>resourcePostgreSQLExtensionCreate\<close>.\<close>

definition createSQL :: "ResourceData \<Rightarrow> string" where
  "createSQL d =
     (let extName = d_Get d extNameAttr;
          b = ''CREATE EXTENSION IF NOT EXISTS '' @ QuoteIdentifier extName;
          b = (case d_GetOk d extSchemaAttr of
                 (v, ok) \<Rightarrow> if ok then b @ '' SCHEMA '' @ QuoteIdentifier v else b);
          b = (case d_GetOk d extVersionAttr of
                 (v, ok) \<Rightarrow> if ok then b @ '' VERSION '' @ QuoteIdentifier v else b)
      in b)"

definition dropSQL :: "ResourceData \<Rightarrow> string" where
  "dropSQL d = ''DROP EXTENSION '' @ QuoteIdentifier (d_Id d)"

text \<open>The statement of \<^verbatim>\<open>setExtSchema\<close>, for the new schema \<open>n\<close>.\<close>

definition schemaSQL :: "ResourceData \<Rightarrow> string \<Rightarrow> string" where
  "schemaSQL d n =
     ''ALTER EXTENSION '' @ QuoteIdentifier (d_Id d) @ '' SET SCHEMA '' @ QuoteIdentifier n"

text \<open>The buffer built by \<^verbatim>\<open>setExtVersion\<close>, for the new version \<open>n\<close>.\<close>

definition versionSQL :: "ResourceData \<Rightarrow> string \<Rightarrow> string" where
  "versionSQL d n =
     (let b = ''ALTER EXTENSION '' @ QuoteIdentifier (d_Id d) @ '' UPDATE''
      in if n \<noteq> [] then b @ '' TO '' @ QuoteIdentifier n else b)"

subsection \<open>The operations\<close>

text \<open>
  Each operation takes the client, the resource data and the world, and returns its
  error (or none), the resource data as the call left it, and the world. A deferred
  unlock runs on every return of the function body that follows the lock.
\<close>

definition resourcePostgreSQLExtensionReadImpl ::
  "'db Client \<Rightarrow> ResourceData \<Rightarrow> 'db world \<Rightarrow> error option \<times> ResourceData \<times> 'db world" where
  "resourcePostgreSQLExtensionReadImpl c d w =
     (let extID = d_Id d in
      case QueryRow (DB c) readQuery [extID] w of
        (r, w') \<Rightarrow>
          (case Scan3 r of
             Inl err \<Rightarrow>
               if err = ErrNoRows then (None, d_SetId [] d, w')
               else (Some (Wrapf ''Error reading extension: {{err}}'' err), d, w')
           | Inr (extName, extSchema, extVersion) \<Rightarrow>
               (None,
                d_SetId extName
                  (d_Set extVersionAttr extVersion
                    (d_Set extSchemaAttr extSchema
                      (d_Set extNameAttr extName d))),
                w')))"

definition resourcePostgreSQLExtensionCreate ::
  "'db Client \<Rightarrow> ResourceData \<Rightarrow> 'db world \<Rightarrow> error option \<times> ResourceData \<times> 'db world" where
  "resourcePostgreSQLExtensionCreate c d w =
     (if \<not> featureSupported c featureExtension then (Some (unsupported c), d, w)
      else
        let w = emit EvLock w;
            (err, d, w) =
              (let extName = d_Get d extNameAttr;
                   sql = createSQL d
               in case Exec (DB c) sql w of
                    (Some err, w) \<Rightarrow> (Some (Wrapf ''Error creating extension: {{err}}'' err), d, w)
                  | (None, w) \<Rightarrow> resourcePostgreSQLExtensionReadImpl c (d_SetId extName d) w)
        in (err, d, emit EvUnlock w))"

definition resourcePostgreSQLExtensionExists ::
  "'db Client \<Rightarrow> ResourceData \<Rightarrow> 'db world \<Rightarrow> (bool \<times> error option) \<times> 'db world" where
  "resourcePostgreSQLExtensionExists c d w =
     (if \<not> featureSupported c featureExtension then ((False, Some (unsupported c)), w)
      else
        let w = emit EvLock w;
            (res, w) =
              (case QueryRow (DB c) existsQuery [d_Id d] w of
                 (r, w) \<Rightarrow>
                   (case Scan1 r of
                      Inl err \<Rightarrow>
                        if err = ErrNoRows then ((False, None), w)
                        else ((False, Some err), w)
                    | Inr extensionName \<Rightarrow> ((True, None), w)))
        in (res, emit EvUnlock w))"

definition resourcePostgreSQLExtensionRead ::
  "'db Client \<Rightarrow> ResourceData \<Rightarrow> 'db world \<Rightarrow> error option \<times> ResourceData \<times> 'db world" where
  "resourcePostgreSQLExtensionRead c d w =
     (if \<not> featureSupported c featureExtension then (Some (unsupported c), d, w)
      else
        let w = emit EvRLock w;
            (err, d, w) = resourcePostgreSQLExtensionReadImpl c d w
        in (err, d, emit EvRUnlock w))"

definition resourcePostgreSQLExtensionDelete ::
  "'db Client \<Rightarrow> ResourceData \<Rightarrow> 'db world \<Rightarrow> error option \<times> ResourceData \<times> 'db world" where
  "resourcePostgreSQLExtensionDelete c d w =
     (if \<not> featureSupported c featureExtension then (Some (unsupported c), d, w)
      else
        let w = emit EvLock w;
            (err, d, w) =
              (case Exec (DB c) (dropSQL d) w of
                 (Some err, w) \<Rightarrow> (Some (Wrapf ''Error deleting extension: {{err}}'' err), d, w)
               | (None, w) \<Rightarrow> (None, d_SetId [] d, w))
        in (err, d, emit EvUnlock w))"

definition setExtSchema ::
  "'db sqlDB \<Rightarrow> ResourceData \<Rightarrow> 'db world \<Rightarrow> error option \<times> 'db world" where
  "setExtSchema db d w =
     (if \<not> d_HasChange d extSchemaAttr then (None, w)
      else
        let n = snd (d_GetChange d extSchemaAttr) in
        if n = [] then (Some (ValidationError ''Error setting extension name to an empty string''), w)
        else
          (case Exec db (schemaSQL d n) w of
             (Some err, w) \<Rightarrow> (Some (Wrapf ''Error updating extension SCHEMA: {{err}}'' err), w)
           | (None, w) \<Rightarrow> (None, w)))"

definition setExtVersion ::
  "'db sqlDB \<Rightarrow> ResourceData \<Rightarrow> 'db world \<Rightarrow> error option \<times> 'db world" where
  "setExtVersion db d w =
     (if \<not> d_HasChange d extVersionAttr then (None, w)
      else
        let n = snd (d_GetChange d extVersionAttr) in
        (case Exec db (versionSQL d n) w of
           (Some err, w) \<Rightarrow> (Some (Wrapf ''Error updating extension version: {{err}}'' err), w)
         | (None, w) \<Rightarrow> (None, w)))"

definition resourcePostgreSQLExtensionUpdate ::
  "'db Client \<Rightarrow> ResourceData \<Rightarrow> 'db world \<Rightarrow> error option \<times> ResourceData \<times> 'db world" where
  "resourcePostgreSQLExtensionUpdate c d w =
     (if \<not> featureSupported c featureExtension then (Some (unsupported c), d, w)
      else
        let w = emit EvLock w;
            (err, d, w) =
              (case setExtSchema (DB c) d w of
                 (Some err, w) \<Rightarrow> (Some err, d, w)
               | (None, w) \<Rightarrow>
                   (case setExtVersion (DB c) d w of
                      (Some err, w) \<Rightarrow> (Some err, d, w)
                    | (None, w) \<Rightarrow> resourcePostgreSQLExtensionReadImpl c d w))
        in (err, d, emit EvUnlock w))"

subsection \<open>Reading a trace\<close>

fun exec_statements :: "event list \<Rightarrow> string list" where
  "exec_statements [] = []"
| "exec_statements (EvExec q # es) = q # exec_statements es"
| "exec_statements (e # es) = exec_statements es"

fun sql_events :: "event list \<Rightarrow> event list" where
  "sql_events [] = []"
| "sql_events (e # es) = (if is_sql e then e # sql_events es else sql_events es)"

subsection \<open>The shape of a statement\<close>

text \<open>
  What the quoting convention is there for, in the words of the specification: a
  statement is made of words and of identifiers in double-quote-escaped form. The
  reader below splits a statement text as an SQL lexer does: a quoted identifier runs
  from a double quote to the next double quote that is not doubled, a doubled one
  stands for one double quote of the name, and every other maximal run of characters
  without blank or double quote is a word. A text that ends inside a quoted
  identifier has no reading.
\<close>

datatype token = Word string | Quoted string

datatype lexer_state = Outside string | Inside string | Closing string

definition flush :: "string \<Rightarrow> token list" where
  "flush w = (if w = [] then [] else [Word w])"

fun tokens_from :: "lexer_state \<Rightarrow> string \<Rightarrow> token list option" where
  "tokens_from (Outside w) [] = Some (flush w)"
| "tokens_from (Inside n) [] = None"
| "tokens_from (Closing n) [] = Some [Quoted n]"
| "tokens_from (Outside w) (c # cs) =
     (if c = CHR 0x22 then map_option ((@) (flush w)) (tokens_from (Inside []) cs)
      else if c = CHR '' '' then map_option ((@) (flush w)) (tokens_from (Outside []) cs)
      else tokens_from (Outside (w @ [c])) cs)"
| "tokens_from (Inside n) (c # cs) =
     (if c = CHR 0x22 then tokens_from (Closing n) cs
      else tokens_from (Inside (n @ [c])) cs)"
| "tokens_from (Closing n) (c # cs) =
     (if c = CHR 0x22 then tokens_from (Inside (n @ [c])) cs
      else if c = CHR '' '' then map_option ((#) (Quoted n)) (tokens_from (Outside []) cs)
      else map_option ((#) (Quoted n)) (tokens_from (Outside [c]) cs))"

definition sql_tokens :: "string \<Rightarrow> token list option" where
  "sql_tokens q = tokens_from (Outside []) q"

subsection \<open>A database that answers from a script\<close>

text \<open>
  To run the operations on concrete inputs: the state of this database is the list of
  the answers it will give, one for each call.
\<close>

datatype reply = ExecReply "error option" | RowReply "error + string list"

definition scripted :: "reply list sqlDB" where
  "scripted =
     \<lparr>db_exec = (\<lambda>q s. case s of
                   ExecReply r # rest \<Rightarrow> (r, rest)
                 | _ \<Rightarrow> (Some (DriverError ''unexpected Exec''), s)),
      db_query_row = (\<lambda>q args s. case s of
                   RowReply r # rest \<Rightarrow> (r, rest)
                 | _ \<Rightarrow> (Inl (DriverError ''unexpected QueryRow''), s))\<rparr>"

definition example_client :: "bool \<Rightarrow> reply list Client" where
  "example_client ext = \<lparr>version = ''9.0.1'', featureSupported = (\<lambda>f. ext), DB = scripted\<rparr>"

definition example_world :: "reply list \<Rightarrow> reply list world" where
  "example_world rs = \<lparr>database = rs, trace = []\<rparr>"

definition example_data ::
  "string \<Rightarrow> (string \<rightharpoonup> string) \<Rightarrow> (string \<rightharpoonup> string) \<Rightarrow> ResourceData" where
  "example_data i old new = \<lparr>rd_id = i, rd_state = old, rd_planned = new, rd_written = Map.empty\<rparr>"

definition example_change :: ResourceData where
  "example_change =
     example_data ''hstore''
       [''name'' \<mapsto> ''hstore'', ''schema'' \<mapsto> ''public'', ''version'' \<mapsto> ''1.3'']
       [''name'' \<mapsto> ''hstore'', ''schema'' \<mapsto> ''app'', ''version'' \<mapsto> ''1.4'']"

definition example_same :: ResourceData where
  "example_same =
     example_data ''hstore''
       [''name'' \<mapsto> ''hstore'', ''schema'' \<mapsto> ''public'', ''version'' \<mapsto> ''1.3'']
       [''name'' \<mapsto> ''hstore'', ''schema'' \<mapsto> ''public'', ''version'' \<mapsto> ''1.3'']"

definition example_unset_schema :: ResourceData where
  "example_unset_schema =
     example_data ''hstore''
       [''name'' \<mapsto> ''hstore'', ''schema'' \<mapsto> ''public'', ''version'' \<mapsto> ''1.3'']
       [''name'' \<mapsto> ''hstore'', ''schema'' \<mapsto> [], ''version'' \<mapsto> ''1.4'']"

definition example_unset_version :: ResourceData where
  "example_unset_version =
     example_data ''hstore''
       [''name'' \<mapsto> ''hstore'', ''schema'' \<mapsto> ''public'', ''version'' \<mapsto> ''1.3'']
       [''name'' \<mapsto> ''hstore'', ''schema'' \<mapsto> ''public'', ''version'' \<mapsto> []]"

section \<open>Properties\<close>

subsection \<open>Auxiliary facts\<close>

lemma exec_statements_append:
  "exec_statements (xs @ ys) = exec_statements xs @ exec_statements ys"
  by (induction xs rule: exec_statements.induct) simp_all

lemma sql_events_append: "sql_events (xs @ ys) = sql_events xs @ sql_events ys"
  by (induction xs) simp_all

lemma map_option_append_Nil: "map_option ((@) []) r = r"
  by (cases r) simp_all

lemma inside_escaped:
  "tokens_from (Inside n) (Replace_quotes s @ CHR 0x22 # rest) =
   tokens_from (Closing (n @ s)) rest"
  by (induction s arbitrary: n) simp_all

lemma tokens_QuoteIdentifier_more:
  "tokens_from (Outside []) (QuoteIdentifier x @ rest) =
   tokens_from (Closing (cut_at_zero x)) rest"
  by (simp add: QuoteIdentifier_def inside_escaped flush_def map_option_append_Nil)

lemma tokens_QuoteIdentifier_end:
  "tokens_from (Outside []) (QuoteIdentifier x) = Some [Quoted (cut_at_zero x)]"
  using tokens_QuoteIdentifier_more [of x "[]"] by simp

lemma tokens_createSQL:
  "sql_tokens (createSQL d) =
   Some ([Word ''CREATE'', Word ''EXTENSION'', Word ''IF'', Word ''NOT'', Word ''EXISTS'',
          Quoted (cut_at_zero (d_Get d extNameAttr))] @
         (case d_GetOk d extSchemaAttr of
            (v, ok) \<Rightarrow> if ok then [Word ''SCHEMA'', Quoted (cut_at_zero v)] else []) @
         (case d_GetOk d extVersionAttr of
            (v, ok) \<Rightarrow> if ok then [Word ''VERSION'', Quoted (cut_at_zero v)] else []))"
  by (simp add: sql_tokens_def createSQL_def flush_def tokens_QuoteIdentifier_end
      tokens_QuoteIdentifier_more split: prod.splits)

lemma tokens_dropSQL:
  "sql_tokens (dropSQL d) =
   Some [Word ''DROP'', Word ''EXTENSION'', Quoted (cut_at_zero (d_Id d))]"
  by (simp add: sql_tokens_def dropSQL_def flush_def tokens_QuoteIdentifier_end)

lemma tokens_schemaSQL:
  "sql_tokens (schemaSQL d n) =
   Some [Word ''ALTER'', Word ''EXTENSION'', Quoted (cut_at_zero (d_Id d)),
         Word ''SET'', Word ''SCHEMA'', Quoted (cut_at_zero n)]"
  by (simp add: sql_tokens_def schemaSQL_def flush_def tokens_QuoteIdentifier_end
      tokens_QuoteIdentifier_more)

lemma tokens_versionSQL:
  "sql_tokens (versionSQL d n) =
   Some ([Word ''ALTER'', Word ''EXTENSION'', Quoted (cut_at_zero (d_Id d)), Word ''UPDATE''] @
         (if n \<noteq> [] then [Word ''TO'', Quoted (cut_at_zero n)] else []))"
  by (simp add: sql_tokens_def versionSQL_def flush_def tokens_QuoteIdentifier_end
      tokens_QuoteIdentifier_more)

lemmas op_defs =
  resourcePostgreSQLExtensionCreate_def resourcePostgreSQLExtensionRead_def
  resourcePostgreSQLExtensionUpdate_def resourcePostgreSQLExtensionDelete_def
  resourcePostgreSQLExtensionExists_def

subsection \<open>The trace of each operation\<close>

lemmas io_defs = Exec_def QueryRow_def emit_def

lemma ReadImpl_trace:
  "trace (snd (snd (resourcePostgreSQLExtensionReadImpl c d w))) =
   trace w @ [EvQueryRow readQuery [d_Id d]]"
  by (auto simp: resourcePostgreSQLExtensionReadImpl_def io_defs Let_def split: prod.splits sum.splits)

lemma ReadImpl_traceD:
  "resourcePostgreSQLExtensionReadImpl c d w = (r, d', w') \<Longrightarrow>
   trace w' = trace w @ [EvQueryRow readQuery [d_Id d]]"
  using ReadImpl_trace [of c d w] by simp

lemma setExtSchema_trace:
  "\<exists>mid. trace (snd (setExtSchema db d w)) = trace w @ mid \<and> list_all is_sql mid"
  by (simp add: setExtSchema_def io_defs Let_def split: prod.splits option.splits)

lemma setExtVersion_trace:
  "\<exists>mid. trace (snd (setExtVersion db d w)) = trace w @ mid \<and> list_all is_sql mid"
  by (simp add: setExtVersion_def io_defs Let_def split: prod.splits option.splits)

lemma Create_trace:
  assumes "featureSupported c featureExtension"
  shows "trace (snd (snd (resourcePostgreSQLExtensionCreate c d w))) =
     trace w @ [EvLock, EvExec (createSQL d)] @
       (case fst (db_exec (DB c) (createSQL d) (database w)) of
          Some e \<Rightarrow> [] | None \<Rightarrow> [EvQueryRow readQuery [d_Get d extNameAttr]]) @ [EvUnlock]"
  using assms
  by (auto simp: resourcePostgreSQLExtensionCreate_def io_defs Let_def d_Id_def d_SetId_def
      dest!: ReadImpl_traceD split: prod.splits option.splits)

lemma Delete_trace:
  assumes "featureSupported c featureExtension"
  shows "trace (snd (snd (resourcePostgreSQLExtensionDelete c d w))) =
     trace w @ [EvLock, EvExec (dropSQL d), EvUnlock]"
  using assms
  by (simp add: resourcePostgreSQLExtensionDelete_def io_defs Let_def split: prod.splits option.splits)

lemma Read_trace:
  assumes "featureSupported c featureExtension"
  shows "trace (snd (snd (resourcePostgreSQLExtensionRead c d w))) =
     trace w @ [EvRLock, EvQueryRow readQuery [d_Id d], EvRUnlock]"
  using assms
  by (auto simp: resourcePostgreSQLExtensionRead_def emit_def Let_def
      dest!: ReadImpl_traceD split: prod.splits)

lemma Exists_trace:
  assumes "featureSupported c featureExtension"
  shows "trace (snd (resourcePostgreSQLExtensionExists c d w)) =
     trace w @ [EvLock, EvQueryRow existsQuery [d_Id d], EvUnlock]"
  using assms
  by (simp add: resourcePostgreSQLExtensionExists_def io_defs Let_def split: prod.splits sum.splits)

lemma Update_trace:
  assumes "featureSupported c featureExtension"
  shows "\<exists>mid. trace (snd (snd (resourcePostgreSQLExtensionUpdate c d w))) =
     trace w @ [EvLock] @ mid @ [EvUnlock] \<and> list_all is_sql mid"
proof -
  let ?w0 = "emit EvLock w"
  obtain r1 w1 where s1: "setExtSchema (DB c) d ?w0 = (r1, w1)" by (cases "setExtSchema (DB c) d ?w0")
  obtain m1 where m1: "trace w1 = trace ?w0 @ m1" "list_all is_sql m1"
    using setExtSchema_trace [of "DB c" d ?w0] s1 by auto
  obtain r2 w2 where s2: "setExtVersion (DB c) d w1 = (r2, w2)" by (cases "setExtVersion (DB c) d w1")
  obtain m2 where m2: "trace w2 = trace w1 @ m2" "list_all is_sql m2"
    using setExtVersion_trace [of "DB c" d w1] s2 by auto
  have t0: "trace ?w0 = trace w @ [EvLock]" by (simp add: emit_def)
  show ?thesis
  proof (cases r1)
    case (Some e)
    then have "trace (snd (snd (resourcePostgreSQLExtensionUpdate c d w))) = trace w @ [EvLock] @ m1 @ [EvUnlock]"
      using assms s1 m1 t0 by (simp add: resourcePostgreSQLExtensionUpdate_def emit_def)
    with m1 show ?thesis by blast
  next
    case None
    note r1 = this
    show ?thesis
    proof (cases r2)
      case (Some e)
      then have "trace (snd (snd (resourcePostgreSQLExtensionUpdate c d w))) = trace w @ [EvLock] @ (m1 @ m2) @ [EvUnlock]"
        using assms s1 s2 r1 m1 m2 t0 by (simp add: resourcePostgreSQLExtensionUpdate_def emit_def)
      moreover have "list_all is_sql (m1 @ m2)" using m1 m2 by simp
      ultimately show ?thesis by blast
    next
      case None
      then have "trace (snd (snd (resourcePostgreSQLExtensionUpdate c d w))) =
          trace w @ [EvLock] @ (m1 @ m2 @ [EvQueryRow readQuery [d_Id d]]) @ [EvUnlock]"
        using assms s1 s2 r1 m1 m2 t0
        by (auto simp: resourcePostgreSQLExtensionUpdate_def emit_def
            dest!: ReadImpl_traceD split: prod.splits)
      moreover have "list_all is_sql (m1 @ m2 @ [EvQueryRow readQuery [d_Id d]])" using m1 m2 by simp
      ultimately show ?thesis by blast
    qed
  qed
qed

lemma GetOk_Get: "d_GetOk d k = (d_Get d k, d_Get d k \<noteq> [])"
  by (simp add: d_GetOk_def d_Get_def zero_or_def split: option.splits)

lemma createSQL_text:
  "createSQL d =
     ''CREATE EXTENSION IF NOT EXISTS '' @ QuoteIdentifier (d_Get d extNameAttr) @
     (if snd (d_GetOk d extSchemaAttr)
      then '' SCHEMA '' @ QuoteIdentifier (fst (d_GetOk d extSchemaAttr)) else []) @
     (if snd (d_GetOk d extVersionAttr)
      then '' VERSION '' @ QuoteIdentifier (fst (d_GetOk d extVersionAttr)) else [])"
  by (simp add: createSQL_def Let_def case_prod_beta)

lemmas example_defs =
  example_client_def example_world_def example_data_def scripted_def

lemmas data_defs =
  d_Id_def d_SetId_def d_Get_def d_GetOk_def d_GetChange_def d_HasChange_def d_Set_def
  merged_def zero_or_def extNameAttr_def extSchemaAttr_def extVersionAttr_def

subsection \<open>Quoted identifiers\<close>

text \<open>
  C1. Every caller-supplied string that goes into the text of a statement (the
  extension name of the create, drop and alter statements, the new schema of the
  relocation, the new version of the upgrade, the schema and version of the creation)
  is there as the output of \<open>QuoteIdentifier\<close> and nowhere else: whatever the strings
  are, each of the four statement texts reads as its fixed key words and, for each
  interpolated string, one quoted identifier whose name is that string (up to its
  first zero byte, where the quoting routine cuts it). No character of a supplied
  string is read as a word of the statement or ends the identifier early.
\<close>

theorem identifiers_quoted:
  "sql_tokens (createSQL d) =
     Some ([Word ''CREATE'', Word ''EXTENSION'', Word ''IF'', Word ''NOT'', Word ''EXISTS'',
            Quoted (cut_at_zero (d_Get d extNameAttr))] @
           (case d_GetOk d extSchemaAttr of
              (v, ok) \<Rightarrow> if ok then [Word ''SCHEMA'', Quoted (cut_at_zero v)] else []) @
           (case d_GetOk d extVersionAttr of
              (v, ok) \<Rightarrow> if ok then [Word ''VERSION'', Quoted (cut_at_zero v)] else []))
   \<and> sql_tokens (dropSQL d) =
     Some [Word ''DROP'', Word ''EXTENSION'', Quoted (cut_at_zero (d_Id d))]
   \<and> sql_tokens (schemaSQL d n) =
     Some [Word ''ALTER'', Word ''EXTENSION'', Quoted (cut_at_zero (d_Id d)),
           Word ''SET'', Word ''SCHEMA'', Quoted (cut_at_zero n)]
   \<and> sql_tokens (versionSQL d n) =
     Some ([Word ''ALTER'', Word ''EXTENSION'', Quoted (cut_at_zero (d_Id d)), Word ''UPDATE''] @
           (if n \<noteq> [] then [Word ''TO'', Quoted (cut_at_zero n)] else []))"
  by (simp only: tokens_createSQL tokens_dropSQL tokens_schemaSQL tokens_versionSQL simp_thms)

theorem identifiers_quoted_witness:
  \<open>createSQL (example_data [] Map.empty
       [''name'' \<mapsto> ''x"; DROP TABLE t; --'', ''schema'' \<mapsto> ''a b''])
     = ''CREATE EXTENSION IF NOT EXISTS "x""; DROP TABLE t; --" SCHEMA "a b"''
   \<and> sql_tokens (createSQL (example_data [] Map.empty
       [''name'' \<mapsto> ''x"; DROP TABLE t; --'', ''schema'' \<mapsto> ''a b'']))
     = Some [Word ''CREATE'', Word ''EXTENSION'', Word ''IF'', Word ''NOT'', Word ''EXISTS'',
             Quoted ''x"; DROP TABLE t; --'', Word ''SCHEMA'', Quoted ''a b'']\<close>
  using identifiers_quoted [of \<open>example_data [] Map.empty
       [''name'' \<mapsto> ''x"; DROP TABLE t; --'', ''schema'' \<mapsto> ''a b'']\<close>]
  by (simp add: example_defs createSQL_def data_defs QuoteIdentifier_def cut_at_zero_def)

subsection \<open>The capability gate\<close>

text \<open>
  C2. When the capability set of the target database lacks extension support, each of
  the five operations Create, Read, Update, Delete and Exists returns the
  UnsupportedFeature error (carrying the client's version) at once: the resource data
  and the world come back as they were, so the trace has grown by nothing, neither a
  lock event nor a statement.
\<close>

theorem capability_gate:
  assumes "\<not> featureSupported c featureExtension"
  shows "resourcePostgreSQLExtensionCreate c d w = (Some (UnsupportedFeature (version c)), d, w)
       \<and> resourcePostgreSQLExtensionRead c d w = (Some (UnsupportedFeature (version c)), d, w)
       \<and> resourcePostgreSQLExtensionUpdate c d w = (Some (UnsupportedFeature (version c)), d, w)
       \<and> resourcePostgreSQLExtensionDelete c d w = (Some (UnsupportedFeature (version c)), d, w)
       \<and> resourcePostgreSQLExtensionExists c d w =
           ((False, Some (UnsupportedFeature (version c))), w)"
  using assms by (simp add: op_defs unsupported_def)

theorem capability_gate_witness:
  "\<not> featureSupported (example_client False) featureExtension
   \<and> resourcePostgreSQLExtensionCreate (example_client False)
        (example_data [] Map.empty [''name'' \<mapsto> ''hstore'']) (example_world [])
      = (Some (UnsupportedFeature ''9.0.1''),
         example_data [] Map.empty [''name'' \<mapsto> ''hstore''], example_world [])
   \<and> trace (snd (resourcePostgreSQLExtensionExists (example_client False)
        (example_data ''hstore'' Map.empty Map.empty) (example_world []))) = []"
  using
    capability_gate [of "example_client False"
      "example_data [] Map.empty [''name'' \<mapsto> ''hstore'']" "example_world []"]
    capability_gate [of "example_client False"
      "example_data ''hstore'' Map.empty Map.empty" "example_world []"]
  by (simp add: example_client_def example_world_def)

subsection \<open>The statement of Create\<close>

text \<open>
  C3. On a database that supports extensions, Create sends exactly one statement
  through \<^verbatim>\<open>Exec\<close>: the text \<^verbatim>\<open>CREATE EXTENSION IF NOT EXISTS\<close> and the quoted name,
  then the clause \<^verbatim>\<open>SCHEMA\<close> with the quoted schema if and only if \<^verbatim>\<open>GetOk\<close> reports a
  schema value, then the clause \<^verbatim>\<open>VERSION\<close> with the quoted version if and only if
  \<^verbatim>\<open>GetOk\<close> reports a version value; in that order, and nothing else.
\<close>

theorem create_statement:
  assumes "featureSupported c featureExtension"
  shows "exec_statements (trace (snd (snd (resourcePostgreSQLExtensionCreate c d w)))) =
         exec_statements (trace w) @
         [''CREATE EXTENSION IF NOT EXISTS '' @ QuoteIdentifier (d_Get d extNameAttr) @
          (if snd (d_GetOk d extSchemaAttr)
           then '' SCHEMA '' @ QuoteIdentifier (fst (d_GetOk d extSchemaAttr)) else []) @
          (if snd (d_GetOk d extVersionAttr)
           then '' VERSION '' @ QuoteIdentifier (fst (d_GetOk d extVersionAttr)) else [])]"
  using Create_trace [OF assms, of d w] createSQL_text [of d]
  by (simp add: exec_statements_append split: option.splits)

theorem create_statement_witness:
  \<open>featureSupported (example_client True) featureExtension
   \<and> exec_statements (trace (snd (snd (resourcePostgreSQLExtensionCreate (example_client True)
        (example_data [] Map.empty [''name'' \<mapsto> ''hstore'', ''schema'' \<mapsto> ''app''])
        (example_world [ExecReply None, RowReply (Inr [''hstore'', ''app'', ''1.4''])])))))
     = [''CREATE EXTENSION IF NOT EXISTS "hstore" SCHEMA "app"'']\<close>
  using create_statement [of "example_client True"
        "example_data [] Map.empty [''name'' \<mapsto> ''hstore'', ''schema'' \<mapsto> ''app'']"
        "example_world [ExecReply None, RowReply (Inr [''hstore'', ''app'', ''1.4''])]"]
  by (simp add: example_defs data_defs QuoteIdentifier_def cut_at_zero_def)

subsection \<open>A catalog query without rows\<close>

text \<open>
  C4. A query that finds no row is not an error. When the full read gets \<open>ErrNoRows\<close>,
  Read returns no error and the resource data with its identity set to the empty
  string (and nothing else changed); when the existence probe gets \<open>ErrNoRows\<close>,
  Exists returns false and no error. Any other error of the query is passed on: by
  Read wrapped as an error of reading the extension, by Exists as it is, with false.
\<close>

theorem zero_rows_not_an_error:
  assumes "featureSupported c featureExtension"
  shows "(fst (db_query_row (DB c) readQuery [d_Id d] (database w)) = Inl ErrNoRows \<longrightarrow>
            fst (resourcePostgreSQLExtensionRead c d w) = None
          \<and> fst (snd (resourcePostgreSQLExtensionRead c d w)) = d_SetId [] d
          \<and> d_Id (fst (snd (resourcePostgreSQLExtensionRead c d w))) = [])
       \<and> (fst (db_query_row (DB c) existsQuery [d_Id d] (database w)) = Inl ErrNoRows \<longrightarrow>
            fst (resourcePostgreSQLExtensionExists c d w) = (False, None))
       \<and> (\<forall>e. e \<noteq> ErrNoRows \<longrightarrow>
            fst (db_query_row (DB c) readQuery [d_Id d] (database w)) = Inl e \<longrightarrow>
            fst (resourcePostgreSQLExtensionRead c d w) =
              Some (Wrapf ''Error reading extension: {{err}}'' e))
       \<and> (\<forall>e. e \<noteq> ErrNoRows \<longrightarrow>
            fst (db_query_row (DB c) existsQuery [d_Id d] (database w)) = Inl e \<longrightarrow>
            fst (resourcePostgreSQLExtensionExists c d w) = (False, Some e))"
  using assms
  by (auto simp: resourcePostgreSQLExtensionRead_def resourcePostgreSQLExtensionExists_def
      resourcePostgreSQLExtensionReadImpl_def io_defs Let_def d_Id_def d_SetId_def
      split: prod.splits sum.splits)

theorem zero_rows_not_an_error_witness:
  "featureSupported (example_client True) featureExtension
   \<and> resourcePostgreSQLExtensionRead (example_client True)
       (example_data ''hstore'' [''name'' \<mapsto> ''hstore''] [''name'' \<mapsto> ''hstore''])
       (example_world [RowReply (Inl ErrNoRows)])
     = (None, example_data [] [''name'' \<mapsto> ''hstore''] [''name'' \<mapsto> ''hstore''],
        \<lparr>database = [], trace = [EvRLock, EvQueryRow readQuery [''hstore''], EvRUnlock]\<rparr>)
   \<and> fst (resourcePostgreSQLExtensionExists (example_client True)
       (example_data ''hstore'' [''name'' \<mapsto> ''hstore''] [''name'' \<mapsto> ''hstore''])
       (example_world [RowReply (Inl ErrNoRows)])) = (False, None)
   \<and> fst (resourcePostgreSQLExtensionRead (example_client True)
       (example_data ''hstore'' [''name'' \<mapsto> ''hstore''] [''name'' \<mapsto> ''hstore''])
       (example_world [RowReply (Inl (DriverError ''connection reset''))]))
     = Some (Wrapf ''Error reading extension: {{err}}'' (DriverError ''connection reset''))
   \<and> fst (resourcePostgreSQLExtensionExists (example_client True)
       (example_data ''hstore'' [''name'' \<mapsto> ''hstore''] [''name'' \<mapsto> ''hstore''])
       (example_world [RowReply (Inl (DriverError ''connection reset''))]))
     = (False, Some (DriverError ''connection reset''))"
  using
    zero_rows_not_an_error [of "example_client True"
       "example_data ''hstore'' [''name'' \<mapsto> ''hstore''] [''name'' \<mapsto> ''hstore'']"
       "example_world [RowReply (Inl ErrNoRows)]"]
    zero_rows_not_an_error [of "example_client True"
       "example_data ''hstore'' [''name'' \<mapsto> ''hstore''] [''name'' \<mapsto> ''hstore'']"
       "example_world [RowReply (Inl (DriverError ''connection reset''))]"]
  by (simp add: example_defs data_defs resourcePostgreSQLExtensionRead_def
      resourcePostgreSQLExtensionReadImpl_def io_defs)

subsection \<open>The two steps of Update\<close>

text \<open>
  C5. When both the schema and the version report a change (the new schema not
  empty), Update sends the relocation statement first. If it fails, the version
  statement is not sent. If it succeeds and the version statement fails, Update
  returns the wrapped error of the version statement; after the failed statement the
  only event is the unlock: no statement undoes the relocation and the finishing read
  is not made. If both succeed, Update ends with the full read of the catalog.
\<close>

theorem update_order_no_rollback:
  assumes "featureSupported c featureExtension"
    and "d_HasChange d extSchemaAttr" and "snd (d_GetChange d extSchemaAttr) = ns" and "ns \<noteq> []"
    and "d_HasChange d extVersionAttr" and "snd (d_GetChange d extVersionAttr) = nv"
  shows "(\<forall>e s1. db_exec (DB c) (schemaSQL d ns) (database w) = (Some e, s1) \<longrightarrow>
            resourcePostgreSQLExtensionUpdate c d w =
              (Some (Wrapf ''Error updating extension SCHEMA: {{err}}'' e), d,
               \<lparr>database = s1,
                 trace = trace w @ [EvLock, EvExec (schemaSQL d ns), EvUnlock]\<rparr>))
       \<and> (\<forall>e s1 s2. db_exec (DB c) (schemaSQL d ns) (database w) = (None, s1) \<longrightarrow>
            db_exec (DB c) (versionSQL d nv) s1 = (Some e, s2) \<longrightarrow>
            resourcePostgreSQLExtensionUpdate c d w =
              (Some (Wrapf ''Error updating extension version: {{err}}'' e), d,
               \<lparr>database = s2,
                 trace = trace w @
                   [EvLock, EvExec (schemaSQL d ns), EvExec (versionSQL d nv), EvUnlock]\<rparr>))
       \<and> (\<forall>s1 s2. db_exec (DB c) (schemaSQL d ns) (database w) = (None, s1) \<longrightarrow>
            db_exec (DB c) (versionSQL d nv) s1 = (None, s2) \<longrightarrow>
            trace (snd (snd (resourcePostgreSQLExtensionUpdate c d w))) =
              trace w @ [EvLock, EvExec (schemaSQL d ns), EvExec (versionSQL d nv),
                         EvQueryRow readQuery [d_Id d], EvUnlock])"
  using assms
  by (auto simp: resourcePostgreSQLExtensionUpdate_def setExtSchema_def setExtVersion_def
      io_defs Let_def dest!: ReadImpl_traceD split: prod.splits)

theorem update_order_no_rollback_witness:
  \<open>featureSupported (example_client True) featureExtension
   \<and> d_HasChange example_change extSchemaAttr
   \<and> snd (d_GetChange example_change extSchemaAttr) = ''app'' \<and> ''app'' \<noteq> []
   \<and> d_HasChange example_change extVersionAttr
   \<and> snd (d_GetChange example_change extVersionAttr) = ''1.4''
   \<and> resourcePostgreSQLExtensionUpdate (example_client True) example_change
        (example_world [ExecReply None, ExecReply (Some (DriverError ''no update path''))])
      = (Some (Wrapf ''Error updating extension version: {{err}}'' (DriverError ''no update path'')),
         example_change,
         \<lparr>database = [],
           trace = [EvLock, EvExec ''ALTER EXTENSION "hstore" SET SCHEMA "app"'',
                    EvExec ''ALTER EXTENSION "hstore" UPDATE TO "1.4"'', EvUnlock]\<rparr>)
   \<and> trace (snd (snd (resourcePostgreSQLExtensionUpdate (example_client True) example_change
        (example_world [ExecReply None, ExecReply None,
                        RowReply (Inr [''hstore'', ''app'', ''1.4''])]))))
      = [EvLock, EvExec ''ALTER EXTENSION "hstore" SET SCHEMA "app"'',
         EvExec ''ALTER EXTENSION "hstore" UPDATE TO "1.4"'',
         EvQueryRow readQuery [''hstore''], EvUnlock]\<close>
  using
    update_order_no_rollback [of "example_client True" example_change "''app''" "''1.4''"
      "example_world [ExecReply None, ExecReply (Some (DriverError ''no update path''))]"]
    update_order_no_rollback [of "example_client True" example_change "''app''" "''1.4''"
      "example_world [ExecReply None, ExecReply None,
                      RowReply (Inr [''hstore'', ''app'', ''1.4''])]"]
  by (simp add: example_change_def example_defs data_defs schemaSQL_def versionSQL_def
      QuoteIdentifier_def cut_at_zero_def)

subsection \<open>Update without a change\<close>

text \<open>
  C6, as stated, fails. With previous and desired descriptors equal, Update still
  makes its finishing read: one \<^verbatim>\<open>SELECT\<close> goes to the database, and when that query
  fails Update returns the wrapped error.
\<close>

theorem noop_update_counterexample:
  \<open>featureSupported (example_client True) featureExtension
   \<and> \<not> d_HasChange example_same extSchemaAttr
   \<and> \<not> d_HasChange example_same extVersionAttr
   \<and> sql_events (trace (snd (snd (resourcePostgreSQLExtensionUpdate (example_client True)
        example_same (example_world [RowReply (Inr [''hstore'', ''public'', ''1.3''])])))))
      = [EvQueryRow readQuery [''hstore'']]
   \<and> fst (resourcePostgreSQLExtensionUpdate (example_client True) example_same
        (example_world [RowReply (Inl (DriverError ''connection reset''))]))
      = Some (Wrapf ''Error reading extension: {{err}}'' (DriverError ''connection reset''))\<close>
  by (simp add: example_same_def example_defs data_defs resourcePostgreSQLExtensionUpdate_def
      setExtSchema_def setExtVersion_def resourcePostgreSQLExtensionReadImpl_def io_defs)

text \<open>
  C6, amended. When neither the schema nor the version reports a change, Update sends
  no statement through \<^verbatim>\<open>Exec\<close>: between lock and unlock its only event is the full
  read of the catalog, and its result is the result of that read, no error when the
  read finds the row or finds no row, the wrapped error otherwise.
\<close>

theorem noop_update:
  assumes "featureSupported c featureExtension"
    and "\<not> d_HasChange d extSchemaAttr" and "\<not> d_HasChange d extVersionAttr"
  shows "trace (snd (snd (resourcePostgreSQLExtensionUpdate c d w))) =
           trace w @ [EvLock, EvQueryRow readQuery [d_Id d], EvUnlock]
       \<and> exec_statements (trace (snd (snd (resourcePostgreSQLExtensionUpdate c d w)))) =
           exec_statements (trace w)
       \<and> fst (resourcePostgreSQLExtensionUpdate c d w) =
           (case Scan3 (fst (db_query_row (DB c) readQuery [d_Id d] (database w))) of
              Inl e \<Rightarrow> if e = ErrNoRows then None
                       else Some (Wrapf ''Error reading extension: {{err}}'' e)
            | Inr row \<Rightarrow> None)"
proof -
  have upd: "resourcePostgreSQLExtensionUpdate c d w =
      (case resourcePostgreSQLExtensionReadImpl c d (emit EvLock w) of
         (err, d', w') \<Rightarrow> (err, d', emit EvUnlock w'))"
    using assms
    by (simp add: resourcePostgreSQLExtensionUpdate_def setExtSchema_def setExtVersion_def)
  have tr: "trace (snd (snd (resourcePostgreSQLExtensionUpdate c d w))) =
           trace w @ [EvLock, EvQueryRow readQuery [d_Id d], EvUnlock]"
    unfolding upd by (auto simp: emit_def dest!: ReadImpl_traceD split: prod.splits)
  have ex: "exec_statements (trace (snd (snd (resourcePostgreSQLExtensionUpdate c d w)))) =
           exec_statements (trace w)"
    unfolding tr by (simp add: exec_statements_append)
  have res: "fst (resourcePostgreSQLExtensionUpdate c d w) =
           (case Scan3 (fst (db_query_row (DB c) readQuery [d_Id d] (database w))) of
              Inl e \<Rightarrow> if e = ErrNoRows then None
                       else Some (Wrapf ''Error reading extension: {{err}}'' e)
            | Inr row \<Rightarrow> None)"
    unfolding upd
    by (auto simp: resourcePostgreSQLExtensionReadImpl_def io_defs Let_def
        split: prod.splits sum.splits)
  from tr ex res show ?thesis by simp
qed

theorem noop_update_witness:
  \<open>featureSupported (example_client True) featureExtension
   \<and> \<not> d_HasChange example_same extSchemaAttr
   \<and> \<not> d_HasChange example_same extVersionAttr
   \<and> trace (snd (snd (resourcePostgreSQLExtensionUpdate (example_client True)
        example_same (example_world [RowReply (Inr [''hstore'', ''public'', ''1.3''])]))))
      = [EvLock, EvQueryRow readQuery [''hstore''], EvUnlock]
   \<and> fst (resourcePostgreSQLExtensionUpdate (example_client True)
        example_same (example_world [RowReply (Inr [''hstore'', ''public'', ''1.3''])])) = None\<close>
  using noop_update [of "example_client True" example_same
      "example_world [RowReply (Inr [''hstore'', ''public'', ''1.3''])]"]
  by (simp add: example_same_def example_defs data_defs)

subsection \<open>An empty new schema\<close>

text \<open>
  C7. When the schema reports a change and its new value is the empty string, Update
  (on a database that supports extensions) returns the validation error of
  \<^verbatim>\<open>setExtSchema\<close>. The database is untouched and the trace grows by the lock and the
  unlock only: the schema step sends nothing, and neither the version step nor the
  finishing read is reached.
\<close>

theorem empty_schema_rejected:
  assumes "featureSupported c featureExtension"
    and "d_HasChange d extSchemaAttr" and "snd (d_GetChange d extSchemaAttr) = []"
  shows "resourcePostgreSQLExtensionUpdate c d w =
           (Some (ValidationError ''Error setting extension name to an empty string''), d,
            w\<lparr>trace := trace w @ [EvLock, EvUnlock]\<rparr>)
       \<and> setExtSchema (DB c) d w =
           (Some (ValidationError ''Error setting extension name to an empty string''), w)"
  using assms
  by (simp add: resourcePostgreSQLExtensionUpdate_def setExtSchema_def emit_def)

theorem empty_schema_rejected_witness:
  "featureSupported (example_client True) featureExtension
   \<and> d_HasChange example_unset_schema extSchemaAttr
   \<and> snd (d_GetChange example_unset_schema extSchemaAttr) = []
   \<and> resourcePostgreSQLExtensionUpdate (example_client True) example_unset_schema
        (example_world [ExecReply None, RowReply (Inr [''hstore'', ''public'', ''1.4''])])
      = (Some (ValidationError ''Error setting extension name to an empty string''),
         example_unset_schema,
         \<lparr>database = [ExecReply None, RowReply (Inr [''hstore'', ''public'', ''1.4''])],
           trace = [EvLock, EvUnlock]\<rparr>)"
  using empty_schema_rejected [of "example_client True" example_unset_schema
      "example_world [ExecReply None, RowReply (Inr [''hstore'', ''public'', ''1.4''])]"]
  by (simp add: example_unset_schema_def example_defs data_defs)

subsection \<open>The catalog lock\<close>

text \<open>
  C8. On a database that supports extensions, whatever the database answers and
  whatever the resource data hold: the events of Create, Update, Delete and Exists
  are \<^verbatim>\<open>Lock\<close>, then statements only, then \<^verbatim>\<open>Unlock\<close>; those of Read are \<^verbatim>\<open>RLock\<close>, then
  statements only, then \<^verbatim>\<open>RUnlock\<close>. So the lock is taken before any statement and
  given back as the last action on every way out.
\<close>

theorem catalog_lock_discipline:
  assumes "featureSupported c featureExtension"
  shows "(\<exists>mid. trace (snd (snd (resourcePostgreSQLExtensionCreate c d w))) =
                  trace w @ [EvLock] @ mid @ [EvUnlock] \<and> list_all is_sql mid)
       \<and> (\<exists>mid. trace (snd (snd (resourcePostgreSQLExtensionUpdate c d w))) =
                  trace w @ [EvLock] @ mid @ [EvUnlock] \<and> list_all is_sql mid)
       \<and> (\<exists>mid. trace (snd (snd (resourcePostgreSQLExtensionDelete c d w))) =
                  trace w @ [EvLock] @ mid @ [EvUnlock] \<and> list_all is_sql mid)
       \<and> (\<exists>mid. trace (snd (resourcePostgreSQLExtensionExists c d w)) =
                  trace w @ [EvLock] @ mid @ [EvUnlock] \<and> list_all is_sql mid)
       \<and> (\<exists>mid. trace (snd (snd (resourcePostgreSQLExtensionRead c d w))) =
                  trace w @ [EvRLock] @ mid @ [EvRUnlock] \<and> list_all is_sql mid)"
proof -
  let ?q = "case fst (db_exec (DB c) (createSQL d) (database w)) of
              Some e \<Rightarrow> [] | None \<Rightarrow> [EvQueryRow readQuery [d_Get d extNameAttr]]"
  have "trace (snd (snd (resourcePostgreSQLExtensionCreate c d w))) =
          trace w @ [EvLock] @ (EvExec (createSQL d) # ?q) @ [EvUnlock]"
    using Create_trace [OF assms, of d w] by simp
  moreover have "list_all is_sql (EvExec (createSQL d) # ?q)"
    by (simp split: option.splits)
  ultimately have cr: "\<exists>mid. trace (snd (snd (resourcePostgreSQLExtensionCreate c d w))) =
                  trace w @ [EvLock] @ mid @ [EvUnlock] \<and> list_all is_sql mid"
    by blast
  have "trace (snd (snd (resourcePostgreSQLExtensionDelete c d w))) =
          trace w @ [EvLock] @ [EvExec (dropSQL d)] @ [EvUnlock]"
    using Delete_trace [OF assms, of d w] by simp
  moreover have "list_all is_sql [EvExec (dropSQL d)]" by simp
  ultimately have de: "\<exists>mid. trace (snd (snd (resourcePostgreSQLExtensionDelete c d w))) =
                  trace w @ [EvLock] @ mid @ [EvUnlock] \<and> list_all is_sql mid"
    by blast
  have "trace (snd (resourcePostgreSQLExtensionExists c d w)) =
          trace w @ [EvLock] @ [EvQueryRow existsQuery [d_Id d]] @ [EvUnlock]"
    using Exists_trace [OF assms, of d w] by simp
  moreover have "list_all is_sql [EvQueryRow existsQuery [d_Id d]]" by simp
  ultimately have ex: "\<exists>mid. trace (snd (resourcePostgreSQLExtensionExists c d w)) =
                  trace w @ [EvLock] @ mid @ [EvUnlock] \<and> list_all is_sql mid"
    by blast
  have "trace (snd (snd (resourcePostgreSQLExtensionRead c d w))) =
          trace w @ [EvRLock] @ [EvQueryRow readQuery [d_Id d]] @ [EvRUnlock]"
    using Read_trace [OF assms, of d w] by simp
  moreover have "list_all is_sql [EvQueryRow readQuery [d_Id d]]" by simp
  ultimately have re: "\<exists>mid. trace (snd (snd (resourcePostgreSQLExtensionRead c d w))) =
                  trace w @ [EvRLock] @ mid @ [EvRUnlock] \<and> list_all is_sql mid"
    by blast
  from cr Update_trace [OF assms, of d w] de ex re show ?thesis by simp
qed

theorem catalog_lock_discipline_witness:
  \<open>featureSupported (example_client True) featureExtension
   \<and> trace (snd (snd (resourcePostgreSQLExtensionUpdate (example_client True) example_change
        (example_world [ExecReply (Some (DriverError ''permission denied''))]))))
      = [EvLock, EvExec ''ALTER EXTENSION "hstore" SET SCHEMA "app"'', EvUnlock]
   \<and> trace (snd (snd (resourcePostgreSQLExtensionUpdate (example_client True)
        example_unset_schema (example_world []))))
      = [EvLock, EvUnlock]
   \<and> trace (snd (snd (resourcePostgreSQLExtensionRead (example_client True) example_same
        (example_world [RowReply (Inr [''hstore'', ''public'', ''1.3''])]))))
      = [EvRLock, EvQueryRow readQuery [''hstore''], EvRUnlock]\<close>
  using
    catalog_lock_discipline [of "example_client True" example_change
      "example_world [ExecReply (Some (DriverError ''permission denied''))]"]
    catalog_lock_discipline [of "example_client True" example_unset_schema "example_world []"]
    catalog_lock_discipline [of "example_client True" example_same
      "example_world [RowReply (Inr [''hstore'', ''public'', ''1.3''])]"]
  by (simp add: example_change_def example_unset_schema_def example_same_def
      example_defs data_defs resourcePostgreSQLExtensionUpdate_def
      resourcePostgreSQLExtensionRead_def resourcePostgreSQLExtensionReadImpl_def
      setExtSchema_def setExtVersion_def io_defs schemaSQL_def
      QuoteIdentifier_def cut_at_zero_def)

subsection \<open>Empty values on Create\<close>

text \<open>
  C9. The statement of Create depends on the schema and the version only through
  their values as \<^verbatim>\<open>Get\<close> returns them, and an attribute set to the empty string has
  the same value as an absent one: in both cases the clause is left out, and the
  statement has no word \<^verbatim>\<open>SCHEMA\<close> (no word \<^verbatim>\<open>VERSION\<close>) at all.
\<close>

theorem create_empty_is_absent:
  "createSQL d =
     ''CREATE EXTENSION IF NOT EXISTS '' @ QuoteIdentifier (d_Get d extNameAttr) @
     (if d_Get d extSchemaAttr = [] then []
      else '' SCHEMA '' @ QuoteIdentifier (d_Get d extSchemaAttr)) @
     (if d_Get d extVersionAttr = [] then []
      else '' VERSION '' @ QuoteIdentifier (d_Get d extVersionAttr))
   \<and> (d_Get d extSchemaAttr = [] \<longrightarrow>
        (\<forall>ts. sql_tokens (createSQL d) = Some ts \<longrightarrow> Word ''SCHEMA'' \<notin> set ts))
   \<and> (d_Get d extVersionAttr = [] \<longrightarrow>
        (\<forall>ts. sql_tokens (createSQL d) = Some ts \<longrightarrow> Word ''VERSION'' \<notin> set ts))"
proof -
  have stmt: "createSQL d =
     ''CREATE EXTENSION IF NOT EXISTS '' @ QuoteIdentifier (d_Get d extNameAttr) @
     (if d_Get d extSchemaAttr = [] then []
      else '' SCHEMA '' @ QuoteIdentifier (d_Get d extSchemaAttr)) @
     (if d_Get d extVersionAttr = [] then []
      else '' VERSION '' @ QuoteIdentifier (d_Get d extVersionAttr))"
    by (simp add: createSQL_text GetOk_Get)
  have no_schema: "Word ''SCHEMA'' \<notin> set ts"
    if "d_Get d extSchemaAttr = []" and "sql_tokens (createSQL d) = Some ts" for ts
    using that by (auto simp: tokens_createSQL GetOk_Get split: if_splits)
  have no_version: "Word ''VERSION'' \<notin> set ts"
    if "d_Get d extVersionAttr = []" and "sql_tokens (createSQL d) = Some ts" for ts
    using that by (auto simp: tokens_createSQL GetOk_Get split: if_splits)
  from stmt no_schema no_version show ?thesis by blast
qed

theorem create_empty_is_absent_witness:
  \<open>d_Get (example_data [] Map.empty [''name'' \<mapsto> ''hstore'', ''schema'' \<mapsto> [], ''version'' \<mapsto> []])
       extSchemaAttr = []
   \<and> d_Get (example_data [] Map.empty [''name'' \<mapsto> ''hstore'', ''schema'' \<mapsto> [], ''version'' \<mapsto> []])
       extVersionAttr = []
   \<and> createSQL (example_data [] Map.empty
       [''name'' \<mapsto> ''hstore'', ''schema'' \<mapsto> [], ''version'' \<mapsto> []])
     = ''CREATE EXTENSION IF NOT EXISTS "hstore"''
   \<and> createSQL (example_data [] Map.empty [''name'' \<mapsto> ''hstore''])
     = ''CREATE EXTENSION IF NOT EXISTS "hstore"''
   \<and> sql_tokens (createSQL (example_data [] Map.empty
       [''name'' \<mapsto> ''hstore'', ''schema'' \<mapsto> [], ''version'' \<mapsto> []]))
     = Some [Word ''CREATE'', Word ''EXTENSION'', Word ''IF'', Word ''NOT'', Word ''EXISTS'',
             Quoted ''hstore'']\<close>
  using
    create_empty_is_absent [of \<open>example_data [] Map.empty
       [''name'' \<mapsto> ''hstore'', ''schema'' \<mapsto> [], ''version'' \<mapsto> []]\<close>]
    create_empty_is_absent [of \<open>example_data [] Map.empty [''name'' \<mapsto> ''hstore'']\<close>]
  by (simp add: example_defs data_defs QuoteIdentifier_def cut_at_zero_def sql_tokens_def flush_def)

subsection \<open>An empty new version\<close>

text \<open>
  C10. When the version reports a change and its new value is the empty string,
  \<^verbatim>\<open>setExtVersion\<close> does not reject it: it sends the statement \<^verbatim>\<open>ALTER EXTENSION\<close>, the
  quoted identity, \<^verbatim>\<open>UPDATE\<close>, with no \<^verbatim>\<open>TO\<close> clause, and returns what the database
  answers (wrapped, if an error). A change of the schema to the empty string, in
  contrast, is answered by \<^verbatim>\<open>setExtSchema\<close> with the validation error, nothing sent.
\<close>

theorem empty_version_is_bare_update:
  assumes "d_HasChange d extVersionAttr" and "snd (d_GetChange d extVersionAttr) = []"
  shows "setExtVersion db d w =
           (case db_exec db (''ALTER EXTENSION '' @ QuoteIdentifier (d_Id d) @ '' UPDATE'')
                   (database w) of
              (r, s) \<Rightarrow>
                (map_option (Wrapf ''Error updating extension version: {{err}}'') r,
                 \<lparr>database = s,
                   trace = trace w @
                     [EvExec (''ALTER EXTENSION '' @ QuoteIdentifier (d_Id d) @ '' UPDATE'')]\<rparr>))
       \<and> (d_HasChange d extSchemaAttr \<longrightarrow> snd (d_GetChange d extSchemaAttr) = [] \<longrightarrow>
            setExtSchema db d w =
              (Some (ValidationError ''Error setting extension name to an empty string''), w))"
  using assms
  by (auto simp: setExtVersion_def setExtSchema_def versionSQL_def io_defs
      split: prod.splits option.splits)

theorem empty_version_is_bare_update_witness:
  \<open>d_HasChange example_unset_version extVersionAttr
   \<and> snd (d_GetChange example_unset_version extVersionAttr) = []
   \<and> setExtVersion scripted example_unset_version (example_world [ExecReply None])
      = (None, \<lparr>database = [], trace = [EvExec ''ALTER EXTENSION "hstore" UPDATE'']\<rparr>)
   \<and> fst (resourcePostgreSQLExtensionUpdate (example_client True) example_unset_version
        (example_world [ExecReply None, RowReply (Inr [''hstore'', ''public'', ''1.4''])])) = None\<close>
  using empty_version_is_bare_update [of example_unset_version scripted
      "example_world [ExecReply None]"]
  by (simp add: example_unset_version_def example_defs data_defs QuoteIdentifier_def
      cut_at_zero_def resourcePostgreSQLExtensionUpdate_def setExtSchema_def setExtVersion_def
      resourcePostgreSQLExtensionReadImpl_def io_defs versionSQL_def)

end
